theory Spec2Isabelle
  imports Complex_Main
begin

section \<open>Dual moving-average strategy: the event-driven backtest (strategy/strat_temp.py)\<close>

text \<open>
  The engine works on pandas columns of float64 cells. A cell is modelled as a real number,
  one of the two infinities, or NaN (the marker pandas uses for "not available").
  Rounding, overflow and the sign of zero are not modelled: arithmetic on finite cells is
  exact real arithmetic, and a zero divisor counts as \<open>+0.0\<close>.
\<close>

subsection \<open>float64 cells\<close>

datatype fl = Fin real | PInf | NInf | NaN

definition inf_of :: "bool \<Rightarrow> fl" where
  "inf_of positive = (if positive then PInf else NInf)"

fun fl_neg :: "fl \<Rightarrow> fl" where
  "fl_neg (Fin a) = Fin (- a)"
| "fl_neg PInf = NInf"
| "fl_neg NInf = PInf"
| "fl_neg NaN = NaN"

fun fl_add :: "fl \<Rightarrow> fl \<Rightarrow> fl" where
  "fl_add (Fin a) (Fin b) = Fin (a + b)"
| "fl_add NaN y = NaN"
| "fl_add x NaN = NaN"
| "fl_add PInf NInf = NaN"
| "fl_add NInf PInf = NaN"
| "fl_add PInf y = PInf"
| "fl_add x PInf = PInf"
| "fl_add NInf y = NInf"
| "fl_add x NInf = NInf"

definition fl_sub :: "fl \<Rightarrow> fl \<Rightarrow> fl" where
  "fl_sub x y = fl_add x (fl_neg y)"

fun fl_mul :: "fl \<Rightarrow> fl \<Rightarrow> fl" where
  "fl_mul (Fin a) (Fin b) = Fin (a * b)"
| "fl_mul NaN y = NaN"
| "fl_mul x NaN = NaN"
| "fl_mul (Fin a) PInf = (if a = 0 then NaN else inf_of (0 < a))"
| "fl_mul (Fin a) NInf = (if a = 0 then NaN else inf_of (a < 0))"
| "fl_mul PInf (Fin b) = (if b = 0 then NaN else inf_of (0 < b))"
| "fl_mul NInf (Fin b) = (if b = 0 then NaN else inf_of (b < 0))"
| "fl_mul PInf PInf = PInf"
| "fl_mul PInf NInf = NInf"
| "fl_mul NInf PInf = NInf"
| "fl_mul NInf NInf = PInf"

fun fl_div :: "fl \<Rightarrow> fl \<Rightarrow> fl" where
  "fl_div (Fin a) (Fin b) =
     (if b = 0 then (if a = 0 then NaN else inf_of (0 < a)) else Fin (a / b))"
| "fl_div NaN y = NaN"
| "fl_div x NaN = NaN"
| "fl_div (Fin a) PInf = Fin 0"
| "fl_div (Fin a) NInf = Fin 0"
| "fl_div PInf (Fin b) = inf_of (0 \<le> b)"
| "fl_div NInf (Fin b) = inf_of (b < 0)"
| "fl_div PInf PInf = NaN"
| "fl_div PInf NInf = NaN"
| "fl_div NInf PInf = NaN"
| "fl_div NInf NInf = NaN"

fun fl_abs :: "fl \<Rightarrow> fl" where
  "fl_abs (Fin a) = Fin \<bar>a\<bar>"
| "fl_abs PInf = PInf"
| "fl_abs NInf = PInf"
| "fl_abs NaN = NaN"

text \<open>Comparisons: every comparison with NaN is false.\<close>

fun fl_le :: "fl \<Rightarrow> fl \<Rightarrow> bool" where
  "fl_le (Fin a) (Fin b) = (a \<le> b)"
| "fl_le NaN y = False"
| "fl_le x NaN = False"
| "fl_le NInf y = True"
| "fl_le x PInf = True"
| "fl_le PInf y = False"
| "fl_le x NInf = False"

fun fl_lt :: "fl \<Rightarrow> fl \<Rightarrow> bool" where
  "fl_lt (Fin a) (Fin b) = (a < b)"
| "fl_lt NaN y = False"
| "fl_lt x NaN = False"
| "fl_lt PInf y = False"
| "fl_lt x NInf = False"
| "fl_lt NInf y = True"
| "fl_lt x PInf = True"

definition fl_gt :: "fl \<Rightarrow> fl \<Rightarrow> bool" where
  "fl_gt x y = fl_lt y x"

subsection \<open>Bars, frames and the object store\<close>

text \<open>
  One row of the \<open>ohlcv\<close> table. Dates are day numbers; prices are finite reals
  (NaN or infinite prices in the input are outside the model).
\<close>

record bar =
  bar_date :: nat
  bar_open :: real
  bar_high :: real
  bar_low :: real
  bar_close :: real
  bar_volume :: nat

text \<open>
  A DataFrame: the rows loaded from the table and the four columns that
  \<open>run_backtest\<close> adds. \<open>None\<close> is a column the frame does not have.
\<close>

record frame =
  bars :: "bar list"
  ma_fast_col :: "fl list option"
  ma_slow_col :: "fl list option"
  atr_col :: "fl list option"
  uptrend_col :: "bool list option"

text \<open>
  DataFrames are mutable objects that the caller and the engine reach through references.
  The store maps a reference to the frame it denotes; \<open>next_ref\<close> is the first
  reference not yet allocated.
\<close>

record heap =
  frames :: "nat \<Rightarrow> frame"
  next_ref :: nat

datatype error = ValueError | KeyError

text \<open>\<open>df.copy()\<close>: a new object holding the same data.\<close>

definition df_copy :: "heap \<Rightarrow> nat \<Rightarrow> nat \<times> heap" where
  "df_copy h df =
     (next_ref h, h\<lparr>frames := (frames h)(next_ref h := frames h df), next_ref := Suc (next_ref h)\<rparr>)"

text \<open>\<open>df[name] = column\<close>, one function for each column the engine assigns.\<close>

definition set_ma_fast :: "heap \<Rightarrow> nat \<Rightarrow> fl list \<Rightarrow> heap" where
  "set_ma_fast h df c = h\<lparr>frames := (frames h)(df := (frames h df)\<lparr>ma_fast_col := Some c\<rparr>)\<rparr>"

definition set_ma_slow :: "heap \<Rightarrow> nat \<Rightarrow> fl list \<Rightarrow> heap" where
  "set_ma_slow h df c = h\<lparr>frames := (frames h)(df := (frames h df)\<lparr>ma_slow_col := Some c\<rparr>)\<rparr>"

definition set_atr :: "heap \<Rightarrow> nat \<Rightarrow> fl list \<Rightarrow> heap" where
  "set_atr h df c = h\<lparr>frames := (frames h)(df := (frames h df)\<lparr>atr_col := Some c\<rparr>)\<rparr>"

definition set_uptrend :: "heap \<Rightarrow> nat \<Rightarrow> bool list \<Rightarrow> heap" where
  "set_uptrend h df c = h\<lparr>frames := (frames h)(df := (frames h df)\<lparr>uptrend_col := Some c\<rparr>)\<rparr>"

text \<open>\<open>df["high"]\<close>, \<open>df["low"]\<close>, \<open>df["close"]\<close> as float columns.\<close>

definition col_high :: "frame \<Rightarrow> fl list" where
  "col_high f = map (\<lambda>b. Fin (bar_high b)) (bars f)"

definition col_low :: "frame \<Rightarrow> fl list" where
  "col_low f = map (\<lambda>b. Fin (bar_low b)) (bars f)"

definition col_close :: "frame \<Rightarrow> fl list" where
  "col_close f = map (\<lambda>b. Fin (bar_close b)) (bars f)"

subsection \<open>Series operations of pandas used by the engine\<close>

text \<open>\<open>s.shift(1)\<close>: every value moves one row down, the first row becomes NaN.\<close>

definition shift1 :: "fl list \<Rightarrow> fl list" where
  "shift1 xs = (if xs = [] then [] else NaN # butlast xs)"

text \<open>Row-wise \<open>max(axis=1)\<close>: NaN cells are skipped; a row of NaN only gives NaN.\<close>

definition max_skipna :: "fl list \<Rightarrow> fl" where
  "max_skipna xs =
     foldl (\<lambda>acc x. if x = NaN then acc else if acc = NaN then x
                     else if fl_lt acc x then x else acc) NaN xs"

text \<open>
  \<open>s.rolling(window).mean()\<close>. Constructing the window raises ValueError for a negative
  window and accepts zero. The mean at row \<open>i\<close> is taken over the non-NaN cells among the
  last \<open>window\<close> rows ending at \<open>i\<close>; it is NaN when there are fewer than \<open>window\<close> of
  them (\<open>min_periods\<close> defaults to the window) or none at all.
\<close>

definition window_at :: "fl list \<Rightarrow> nat \<Rightarrow> nat \<Rightarrow> fl list" where
  "window_at xs w i = drop (Suc i - w) (take (Suc i) xs)"

definition window_mean :: "nat \<Rightarrow> fl list \<Rightarrow> fl" where
  "window_mean min_periods win =
     (let obs = filter (\<lambda>x. x \<noteq> NaN) win in
      if min_periods \<le> length obs \<and> 0 < length obs
      then fl_div (foldl fl_add (Fin 0) obs) (Fin (real (length obs)))
      else NaN)"

definition rolling_mean :: "fl list \<Rightarrow> int \<Rightarrow> error + fl list" where
  "rolling_mean xs window =
     (if window < 0 then Inl ValueError
      else Inr (map (\<lambda>i. window_mean (nat window) (window_at xs (nat window) i))
                  [0..<length xs]))"

subsection \<open>calc_atr\<close>

text \<open>The column \<open>tr\<close> of \<open>calc_atr\<close>: the row-wise maximum of \<open>tr1\<close>, \<open>tr2\<close>, \<open>tr3\<close>.\<close>

definition true_range :: "frame \<Rightarrow> fl list" where
  "true_range df =
     (let high = col_high df; low = col_low df; close = col_close df;
          tr1 = map2 fl_sub high low;
          tr2 = map fl_abs (map2 fl_sub high (shift1 close));
          tr3 = map fl_abs (map2 fl_sub low (shift1 close))
      in map (\<lambda>(a, b, c). max_skipna [a, b, c]) (zip tr1 (zip tr2 tr3)))"

definition calc_atr :: "frame \<Rightarrow> int \<Rightarrow> error + fl list" where
  "calc_atr df period = rolling_mean (true_range df) period"

subsection \<open>run_backtest\<close>

record config =
  ma_fast :: int
  ma_slow :: int
  atr_period :: int
  atr_multiplier :: real

text \<open>
  The keyword arguments of a call, \<open>None\<close> for an argument the caller leaves out, and the
  defaults in the signature of \<open>run_backtest\<close> in strategy/strat_temp.py.
\<close>

record call_args =
  arg_ma_fast :: "int option"
  arg_ma_slow :: "int option"
  arg_atr_period :: "int option"
  arg_atr_multiplier :: "real option"

definition bind_defaults :: "call_args \<Rightarrow> config" where
  "bind_defaults a =
     \<lparr>ma_fast = (case arg_ma_fast a of None \<Rightarrow> 5 | Some v \<Rightarrow> v),
      ma_slow = (case arg_ma_slow a of None \<Rightarrow> 20 | Some v \<Rightarrow> v),
      atr_period = (case arg_atr_period a of None \<Rightarrow> 14 | Some v \<Rightarrow> v),
      atr_multiplier = (case arg_atr_multiplier a of None \<Rightarrow> 2 | Some v \<Rightarrow> v)\<rparr>"

text \<open>The defaults in the signature of \<open>run_backtest\<close> in backtest/vbt.py (the vectorised sibling).\<close>

definition vbt_bind_defaults :: "call_args \<Rightarrow> config" where
  "vbt_bind_defaults a =
     \<lparr>ma_fast = (case arg_ma_fast a of None \<Rightarrow> 20 | Some v \<Rightarrow> v),
      ma_slow = (case arg_ma_slow a of None \<Rightarrow> 60 | Some v \<Rightarrow> v),
      atr_period = (case arg_atr_period a of None \<Rightarrow> 14 | Some v \<Rightarrow> v),
      atr_multiplier = (case arg_atr_multiplier a of None \<Rightarrow> 2 | Some v \<Rightarrow> v)\<rparr>"

text \<open>
  The first part of \<open>run_backtest\<close>: copy the frame, then add the columns
  \<open>ma_fast\<close>, \<open>ma_slow\<close>, \<open>atr\<close> and \<open>uptrend\<close> to the copy. Returns the reference of the
  working copy.
\<close>

definition column :: "'a list option \<Rightarrow> error + 'a list" where
  "column c = (case c of None \<Rightarrow> Inl KeyError | Some xs \<Rightarrow> Inr xs)"

definition uptrend_of :: "frame \<Rightarrow> error + bool list" where
  "uptrend_of f =
     (case column (ma_fast_col f) of
        Inl e \<Rightarrow> Inl e
      | Inr mf \<Rightarrow>
          (case column (ma_slow_col f) of
             Inl e \<Rightarrow> Inl e
           | Inr ms \<Rightarrow> Inr (map2 fl_gt mf ms)))"

definition add_indicators :: "heap \<Rightarrow> nat \<Rightarrow> config \<Rightarrow> (error + nat) \<times> heap" where
  "add_indicators h0 df0 cfg =
     (let (df, h1) = df_copy h0 df0 in
      case rolling_mean (col_close (frames h1 df)) (ma_fast cfg) of
        Inl e \<Rightarrow> (Inl e, h1)
      | Inr mf \<Rightarrow>
          (let h2 = set_ma_fast h1 df mf in
           case rolling_mean (col_close (frames h2 df)) (ma_slow cfg) of
             Inl e \<Rightarrow> (Inl e, h2)
           | Inr ms \<Rightarrow>
               (let h3 = set_ma_slow h2 df ms in
                case calc_atr (frames h3 df) (atr_period cfg) of
                  Inl e \<Rightarrow> (Inl e, h3)
                | Inr a \<Rightarrow>
                    (let h4 = set_atr h3 df a in
                     case uptrend_of (frames h4 df) of
                       Inl e \<Rightarrow> (Inl e, h4)
                     | Inr up \<Rightarrow> (Inr df, set_uptrend h4 df up)))))"

text \<open>
  \<open>df.iloc[i]\<close> reads row \<open>i\<close> across all columns. The loop never writes to the frame,
  so the rows are read once; a missing column is a KeyError.
\<close>

record row =
  r_date :: nat
  r_open :: fl
  r_high :: fl
  r_low :: fl
  r_close :: fl
  r_volume :: nat
  r_ma_fast :: fl
  r_ma_slow :: fl
  r_atr :: fl
  r_uptrend :: bool

definition mk_row :: "bar \<times> fl \<times> fl \<times> fl \<times> bool \<Rightarrow> row" where
  "mk_row = (\<lambda>(b, mf, ms, a, up).
     \<lparr>r_date = bar_date b, r_open = Fin (bar_open b), r_high = Fin (bar_high b),
      r_low = Fin (bar_low b), r_close = Fin (bar_close b), r_volume = bar_volume b,
      r_ma_fast = mf, r_ma_slow = ms, r_atr = a, r_uptrend = up\<rparr>)"

definition iloc_rows :: "frame \<Rightarrow> error + row list" where
  "iloc_rows f =
     (case column (ma_fast_col f) of
        Inl e \<Rightarrow> Inl e
      | Inr mf \<Rightarrow>
          (case column (ma_slow_col f) of
             Inl e \<Rightarrow> Inl e
           | Inr ms \<Rightarrow>
               (case column (atr_col f) of
                  Inl e \<Rightarrow> Inl e
                | Inr a \<Rightarrow>
                    (case column (uptrend_col f) of
                       Inl e \<Rightarrow> Inl e
                     | Inr up \<Rightarrow>
                         Inr (map mk_row (zip (bars f) (zip mf (zip ms (zip a up)))))))))"

text \<open>The loop state: the open position, if any, and the trades closed so far.\<close>

record position =
  pos_entry_date :: nat
  pos_entry_price :: fl
  stop_loss :: fl

text \<open>The two exit reasons (the source's string literals for stop-loss and trend reversal).\<close>

datatype exit_reason = StopLoss | TrendReversal

record trade =
  entry_date :: nat
  entry_price :: fl
  exit_date :: nat
  exit_price :: fl
  pnl_pct :: fl
  reason :: exit_reason

text \<open>\<open>df.iloc[i - 1]\<close>: at \<open>i = 0\<close> the index \<open>-1\<close> is the last row.\<close>

definition prev_index :: "nat \<Rightarrow> nat \<Rightarrow> nat" where
  "prev_index n i = (if i = 0 then n - 1 else i - 1)"

definition entry_signal :: "row \<Rightarrow> row \<Rightarrow> bool" where
  "entry_signal row prev \<longleftrightarrow>
     r_uptrend row \<and> fl_le (r_close prev) (r_ma_fast prev) \<and> fl_lt (r_ma_fast prev) (r_close row)"

definition open_position :: "real \<Rightarrow> row \<Rightarrow> position" where
  "open_position multiplier row =
     \<lparr>pos_entry_date = r_date row, pos_entry_price = r_close row,
      stop_loss = fl_sub (r_close row) (fl_mul (Fin multiplier) (r_atr row))\<rparr>"

text \<open>The \<open>if\<close>/\<open>elif\<close> that sets \<open>exit_reason\<close> and \<open>exit_price\<close>.\<close>

definition check_exit :: "position \<Rightarrow> row \<Rightarrow> row \<Rightarrow> (exit_reason \<times> fl) option" where
  "check_exit p row prev =
     (if fl_le (r_low row) (stop_loss p) then Some (StopLoss, stop_loss p)
      else if r_uptrend prev \<and> \<not> r_uptrend row then Some (TrendReversal, r_close row)
      else None)"

definition close_position :: "position \<Rightarrow> row \<Rightarrow> exit_reason \<Rightarrow> fl \<Rightarrow> trade" where
  "close_position p row why price =
     (let pnl = fl_div (fl_sub price (pos_entry_price p)) (pos_entry_price p) in
      \<lparr>entry_date = pos_entry_date p, entry_price = pos_entry_price p,
       exit_date = r_date row, exit_price = price,
       pnl_pct = fl_mul pnl (Fin 100), reason = why\<rparr>)"

text \<open>One iteration of the \<open>for\<close> loop, at index \<open>i\<close>.\<close>

definition step :: "row list \<Rightarrow> real \<Rightarrow> nat \<Rightarrow> position option \<times> trade list
    \<Rightarrow> position option \<times> trade list" where
  "step df multiplier i st =
     (let row = df ! i; prev = df ! prev_index (length df) i in
      case fst st of
        None \<Rightarrow>
          if entry_signal row prev then (Some (open_position multiplier row), snd st) else st
      | Some p \<Rightarrow>
          (case check_exit p row prev of
             None \<Rightarrow> st
           | Some (why, price) \<Rightarrow> (None, snd st @ [close_position p row why price])))"

text \<open>
  The state on reaching index \<open>i\<close>: the loop \<open>for i in range(ma_slow, len(df))\<close> run up to,
  and not including, \<open>i\<close>.
\<close>

definition loop_state :: "row list \<Rightarrow> config \<Rightarrow> nat \<Rightarrow> position option \<times> trade list" where
  "loop_state df cfg i =
     fold (step df (atr_multiplier cfg)) [nat (ma_slow cfg)..<i] (None, [])"

definition run_backtest :: "heap \<Rightarrow> nat \<Rightarrow> config \<Rightarrow> (error + trade list) \<times> heap" where
  "run_backtest h0 df0 cfg =
     (case add_indicators h0 df0 cfg of
        (Inl e, h) \<Rightarrow> (Inl e, h)
      | (Inr df, h) \<Rightarrow>
          (case iloc_rows (frames h df) of
             Inl e \<Rightarrow> (Inl e, h)
           | Inr rows \<Rightarrow> (Inr (snd (loop_state rows cfg (length rows))), h)))"

subsection \<open>Auxiliary definitions\<close>

text \<open>
  The column \<open>rolling(w).mean()\<close> yields once the window has been accepted, the working copy
  with its four indicator columns, and the rows read from it.
\<close>

definition roll :: "fl list \<Rightarrow> int \<Rightarrow> fl list" where
  "roll xs w = map (\<lambda>i. window_mean (nat w) (window_at xs (nat w) i)) [0..<length xs]"

definition work_frame :: "frame \<Rightarrow> config \<Rightarrow> frame" where
  "work_frame f cfg =
     (let mf = roll (col_close f) (ma_fast cfg); ms = roll (col_close f) (ma_slow cfg) in
      f\<lparr>ma_fast_col := Some mf, ma_slow_col := Some ms,
        atr_col := Some (roll (true_range f) (atr_period cfg)),
        uptrend_col := Some (map2 fl_gt mf ms)\<rparr>)"

definition work_rows :: "frame \<Rightarrow> config \<Rightarrow> row list" where
  "work_rows f cfg =
     (let mf = roll (col_close f) (ma_fast cfg); ms = roll (col_close f) (ma_slow cfg) in
      map mk_row (zip (bars f) (zip mf (zip ms
        (zip (roll (true_range f) (atr_period cfg)) (map2 fl_gt mf ms))))))"

text \<open>The loop is flat on reaching bar \<open>i\<close> and holds a position after it.\<close>

definition opens_at :: "row list \<Rightarrow> config \<Rightarrow> nat \<Rightarrow> bool" where
  "opens_at rows cfg i \<longleftrightarrow>
     fst (loop_state rows cfg i) = None \<and> fst (loop_state rows cfg (Suc i)) \<noteq> None"

text \<open>The trade, if any, that bar \<open>i\<close> closes: the loop holds a position on reaching
  \<open>i\<close> and one of the two exits fires.\<close>

definition closed_at :: "row list \<Rightarrow> config \<Rightarrow> nat \<Rightarrow> trade list" where
  "closed_at rows cfg i =
     (case fst (loop_state rows cfg i) of
        None \<Rightarrow> []
      | Some p \<Rightarrow>
          (case check_exit p (rows ! i) (rows ! prev_index (length rows) i) of
             None \<Rightarrow> []
           | Some (why, price) \<Rightarrow> [close_position p (rows ! i) why price]))"

text \<open>Trade \<open>t\<close> is the trade closed at bar \<open>snd s\<close>, below \<open>hi\<close>, of the position opened
  at the earlier bar \<open>fst s\<close>, and carries the dates of these two bars.\<close>

definition span_of :: "row list \<Rightarrow> config \<Rightarrow> nat \<Rightarrow> trade \<Rightarrow> nat \<times> nat \<Rightarrow> bool" where
  "span_of rows cfg hi t s \<longleftrightarrow>
     nat (ma_slow cfg) \<le> fst s \<and> fst s < snd s \<and> snd s < hi
     \<and> opens_at rows cfg (fst s) \<and> closed_at rows cfg (snd s) = [t]
     \<and> entry_date t = r_date (rows ! fst s) \<and> exit_date t = r_date (rows ! snd s)"

subsection \<open>Sample data\<close>

text \<open>A bar closing at \<open>c\<close> with high and low one point away, an input frame, and a store
  in which reference 0 (like every other) denotes that frame and reference 1 is free.\<close>

definition mk_bar :: "nat \<Rightarrow> real \<Rightarrow> bar" where
  "mk_bar d c = \<lparr>bar_date = d, bar_open = c, bar_high = c + 1, bar_low = c - 1,
     bar_close = c, bar_volume = 1000\<rparr>"

definition frame_of :: "bar list \<Rightarrow> frame" where
  "frame_of bs = \<lparr>bars = bs, ma_fast_col = None, ma_slow_col = None, atr_col = None,
     uptrend_col = None\<rparr>"

definition heap_of :: "bar list \<Rightarrow> heap" where
  "heap_of bs = \<lparr>frames = (\<lambda>_. frame_of bs), next_ref = 1\<rparr>"

definition cfg0 :: config where
  "cfg0 = \<lparr>ma_fast = 1, ma_slow = 2, atr_period = 1, atr_multiplier = 2\<rparr>"

definition bars_a :: "bar list" where
  "bars_a = [mk_bar 1 90, mk_bar 2 95, mk_bar 3 100, mk_bar 4 120, mk_bar 5 110]"

text \<open>Further bar series: a bar that hits the stop while the trend reverses, a series that
  ends with a position open, a losing reversal, and a series with two trades.\<close>

definition bars_b :: "bar list" where
  "bars_b = [mk_bar 1 90, mk_bar 2 95, mk_bar 3 100,
     \<lparr>bar_date = 4, bar_open = 95, bar_high = 96, bar_low = 80, bar_close = 90,
       bar_volume = 1000\<rparr>]"

definition bars_d :: "bar list" where
  "bars_d = [mk_bar 1 90, mk_bar 2 95, mk_bar 3 100, mk_bar 4 90]"

definition bars_e :: "bar list" where
  "bars_e = [mk_bar 1 90, mk_bar 2 95, mk_bar 3 100, mk_bar 4 120, mk_bar 5 110, mk_bar 6 115,
     mk_bar 7 105]"

definition bars_c :: "bar list" where
  "bars_c = [mk_bar 1 90, mk_bar 2 95, mk_bar 3 100, mk_bar 4 120, mk_bar 5 110, mk_bar 6 115]"



text \<open>The trades these series produce under \<open>cfg0\<close>.\<close>

definition trade_a :: trade where
  "trade_a = \<lparr>entry_date = 3, entry_price = Fin 100, exit_date = 5, exit_price = Fin 110,
     pnl_pct = Fin 10, reason = TrendReversal\<rparr>"

definition trade_b :: trade where
  "trade_b = \<lparr>entry_date = 3, entry_price = Fin 100, exit_date = 4, exit_price = Fin 88,
     pnl_pct = Fin (- 12), reason = StopLoss\<rparr>"

definition trade_d :: trade where
  "trade_d = \<lparr>entry_date = 3, entry_price = Fin 100, exit_date = 4, exit_price = Fin 90,
     pnl_pct = Fin (- 10), reason = TrendReversal\<rparr>"

definition trade_e :: trade where
  "trade_e = \<lparr>entry_date = 6, entry_price = Fin 115, exit_date = 7, exit_price = Fin 105,
     pnl_pct = Fin (- (200 / 23)), reason = TrendReversal\<rparr>"

text \<open>The rows and the store that \<open>add_indicators\<close> produces for a sample series under \<open>cfg0\<close>.\<close>

definition sample_rows :: "bar list \<Rightarrow> row list" where
  "sample_rows bs = work_rows (frame_of bs) cfg0"

definition sample_heap :: "bar list \<Rightarrow> heap" where
  "sample_heap bs =
     \<lparr>frames = (\<lambda>_. frame_of bs)(1 := work_frame (frame_of bs) cfg0), next_ref = 2\<rparr>"

section \<open>Properties\<close>

subsection \<open>The indicator columns\<close>

lemma rolling_mean_Inr: "rolling_mean xs w = Inr ys \<longleftrightarrow> 0 \<le> w \<and> ys = roll xs w"
  by (auto simp: rolling_mean_def roll_def)

lemma rolling_mean_Inl: "rolling_mean xs w = Inl e \<longleftrightarrow> w < 0 \<and> e = ValueError"
  by (auto simp: rolling_mean_def)

lemma length_roll [simp]: "length (roll xs w) = length xs"
  by (simp add: roll_def)

lemma length_true_range [simp]: "length (true_range f) = length (bars f)"
  by (simp add: true_range_def Let_def col_high_def col_low_def col_close_def shift1_def)

lemma col_close_upd [simp]:
  "col_close (f\<lparr>ma_fast_col := a\<rparr>) = col_close f"
  "col_close (f\<lparr>ma_slow_col := a\<rparr>) = col_close f"
  by (simp_all add: col_close_def)

lemma true_range_upd [simp]:
  "true_range (f\<lparr>ma_fast_col := a\<rparr>) = true_range f"
  "true_range (f\<lparr>ma_slow_col := a\<rparr>) = true_range f"
  by (simp_all add: true_range_def col_close_def col_high_def col_low_def)

lemma add_indicators_ok:
  assumes "0 \<le> ma_fast cfg" "0 \<le> ma_slow cfg" "0 \<le> atr_period cfg"
  shows "add_indicators h df0 cfg =
     (Inr (next_ref h),
      h\<lparr>frames := (frames h)(next_ref h := work_frame (frames h df0) cfg),
        next_ref := Suc (next_ref h)\<rparr>)"
  using assms
  by (simp add: add_indicators_def df_copy_def set_ma_fast_def set_ma_slow_def set_atr_def
      set_uptrend_def rolling_mean_def calc_atr_def uptrend_of_def column_def work_frame_def
      roll_def Let_def)

lemma add_indicators_neg:
  assumes "ma_fast cfg < 0 \<or> ma_slow cfg < 0 \<or> atr_period cfg < 0"
  shows "fst (add_indicators h df0 cfg) = Inl ValueError"
  using assms
  by (auto simp add: add_indicators_def df_copy_def set_ma_fast_def set_ma_slow_def set_atr_def
      set_uptrend_def rolling_mean_def calc_atr_def uptrend_of_def column_def 
      Let_def split: sum.splits)

lemma iloc_rows_work_frame: "iloc_rows (work_frame f cfg) = Inr (work_rows f cfg)"
  by (simp add: iloc_rows_def work_frame_def work_rows_def column_def Let_def)

lemma length_col_close [simp]: "length (col_close f) = length (bars f)"
  by (simp add: col_close_def)

lemma length_work_rows [simp]: "length (work_rows f cfg) = length (bars f)"
  by (simp add: work_rows_def Let_def)

lemma nth_roll: "i < length xs \<Longrightarrow> roll xs w ! i = window_mean (nat w) (window_at xs (nat w) i)"
  by (simp add: roll_def)

lemma nth_work_rows:
  assumes "i < length (bars f)"
  shows "work_rows f cfg ! i =
     mk_row (bars f ! i, roll (col_close f) (ma_fast cfg) ! i, roll (col_close f) (ma_slow cfg) ! i,
       roll (true_range f) (atr_period cfg) ! i,
       fl_gt (roll (col_close f) (ma_fast cfg) ! i) (roll (col_close f) (ma_slow cfg) ! i))"
  using assms by (simp add: work_rows_def Let_def)

lemma prepared:
  assumes "add_indicators h0 df0 cfg = (Inr df, h)" and "iloc_rows (frames h df) = Inr rows"
  shows "0 \<le> ma_fast cfg \<and> 0 \<le> ma_slow cfg \<and> 0 \<le> atr_period cfg
     \<and> df = next_ref h0
     \<and> h = h0\<lparr>frames := (frames h0)(next_ref h0 := work_frame (frames h0 df0) cfg),
        next_ref := Suc (next_ref h0)\<rparr>
     \<and> rows = work_rows (frames h0 df0) cfg"
proof -
  have nonneg: "0 \<le> ma_fast cfg \<and> 0 \<le> ma_slow cfg \<and> 0 \<le> atr_period cfg"
  proof (rule ccontr)
    assume "\<not> ?thesis"
    then have "ma_fast cfg < 0 \<or> ma_slow cfg < 0 \<or> atr_period cfg < 0" by auto
    from add_indicators_neg [OF this, of h0 df0] assms(1) show False by simp
  qed
  with add_indicators_ok [of cfg h0 df0] assms(1)
  have h: "df = next_ref h0"
    "h = h0\<lparr>frames := (frames h0)(next_ref h0 := work_frame (frames h0 df0) cfg),
        next_ref := Suc (next_ref h0)\<rparr>"
    by simp_all
  then have "frames h df = work_frame (frames h0 df0) cfg" by simp
  with assms(2) have "rows = work_rows (frames h0 df0) cfg"
    by (simp add: iloc_rows_work_frame)
  with nonneg h show ?thesis by simp
qed


lemma fl_gt_NaN [simp]: "fl_gt x NaN = False"
  by (cases x) (simp_all add: fl_gt_def)

lemma row_fields:
  assumes "i < length (bars f)"
  shows "r_date (work_rows f cfg ! i) = bar_date (bars f ! i)"
    and "r_close (work_rows f cfg ! i) = Fin (bar_close (bars f ! i))"
    and "r_low (work_rows f cfg ! i) = Fin (bar_low (bars f ! i))"
    and "r_ma_fast (work_rows f cfg ! i) =
           window_mean (nat (ma_fast cfg)) (window_at (col_close f) (nat (ma_fast cfg)) i)"
    and "r_ma_slow (work_rows f cfg ! i) =
           window_mean (nat (ma_slow cfg)) (window_at (col_close f) (nat (ma_slow cfg)) i)"
    and "r_atr (work_rows f cfg ! i) =
           window_mean (nat (atr_period cfg)) (window_at (true_range f) (nat (atr_period cfg)) i)"
    and "r_uptrend (work_rows f cfg ! i) =
           fl_gt (r_ma_fast (work_rows f cfg ! i)) (r_ma_slow (work_rows f cfg ! i))"
  using assms by (simp_all add: nth_work_rows mk_row_def nth_roll)


lemma loop_state_start: "i \<le> nat (ma_slow cfg) \<Longrightarrow> loop_state rows cfg i = (None, [])"
  by (simp add: loop_state_def)

lemma loop_state_Suc:
  "nat (ma_slow cfg) \<le> i \<Longrightarrow>
   loop_state rows cfg (Suc i) = step rows (atr_multiplier cfg) i (loop_state rows cfg i)"
  by (simp add: loop_state_def)

lemma prev_index_pos: "0 < i \<Longrightarrow> prev_index n i = i - 1"
  by (simp add: prev_index_def)

lemma open_implies_later:
  assumes "fst (loop_state rows cfg i) = Some p"
  shows "nat (ma_slow cfg) < i"
proof (rule ccontr)
  assume "\<not> ?thesis"
  then have "i \<le> nat (ma_slow cfg)" by simp
  from loop_state_start [OF this, of rows] assms show False by simp
qed

lemma step_flat:
  assumes "fst st = None"
  shows "step rows m i st =
     (if entry_signal (rows ! i) (rows ! prev_index (length rows) i)
      then (Some (open_position m (rows ! i)), snd st) else st)"
  using assms by (simp add: step_def Let_def)

lemma step_long:
  assumes "fst st = Some p"
  shows "step rows m i st =
     (case check_exit p (rows ! i) (rows ! prev_index (length rows) i) of
        None \<Rightarrow> st
      | Some (why, price) \<Rightarrow> (None, snd st @ [close_position p (rows ! i) why price]))"
  using assms by (simp add: step_def Let_def)

subsection \<open>The loop\<close>

lemma run_backtest_result:
  assumes "add_indicators h0 df0 cfg = (Inr df, h)" and "iloc_rows (frames h df) = Inr rows"
  shows "run_backtest h0 df0 cfg = (Inr (snd (loop_state rows cfg (length rows))), h)"
  using assms by (simp add: run_backtest_def)

lemma run_backtest_ok:
  assumes "0 \<le> ma_fast cfg" "0 \<le> ma_slow cfg" "0 \<le> atr_period cfg"
  shows "fst (run_backtest h0 df0 cfg) =
     Inr (snd (loop_state (work_rows (frames h0 df0) cfg) cfg (length (bars (frames h0 df0)))))"
  using assms by (simp add: run_backtest_def add_indicators_ok iloc_rows_work_frame)

lemma run_backtest_neg:
  assumes "ma_fast cfg < 0 \<or> ma_slow cfg < 0 \<or> atr_period cfg < 0"
  shows "fst (run_backtest h0 df0 cfg) = Inl ValueError"
proof -
  from add_indicators_neg [OF assms, of h0 df0]
  obtain h where "add_indicators h0 df0 cfg = (Inl ValueError, h)"
    by (cases "add_indicators h0 df0 cfg") simp
  then show ?thesis by (simp add: run_backtest_def)
qed

lemma run_backtest_Inr:
  assumes "fst (run_backtest h0 df0 cfg) = Inr ledger"
  shows "0 \<le> ma_fast cfg \<and> 0 \<le> ma_slow cfg \<and> 0 \<le> atr_period cfg
    \<and> ledger = snd (loop_state (work_rows (frames h0 df0) cfg) cfg (length (bars (frames h0 df0))))"
proof -
  have nonneg: "0 \<le> ma_fast cfg \<and> 0 \<le> ma_slow cfg \<and> 0 \<le> atr_period cfg"
  proof (rule ccontr)
    assume "\<not> ?thesis"
    then have "ma_fast cfg < 0 \<or> ma_slow cfg < 0 \<or> atr_period cfg < 0" by auto
    from run_backtest_neg [OF this, of h0 df0] assms show False by simp
  qed
  with run_backtest_ok [of cfg h0 df0] assms show ?thesis by simp
qed

lemma step_ledger_grows: "\<exists>ys. snd (step rows m i st) = snd st @ ys"
  by (cases st) (auto simp: step_def Let_def split: option.splits)

lemma ledger_grows:
  "i \<le> j \<Longrightarrow> \<exists>ys. snd (loop_state rows cfg j) = snd (loop_state rows cfg i) @ ys"
proof (induction j)
  case 0
  then show ?case by simp
next
  case (Suc j)
  show ?case
  proof (cases "i = Suc j")
    case True
    then show ?thesis by simp
  next
    case False
    with Suc.prems have ij: "i \<le> j" by simp
    from Suc.IH [OF ij] obtain ys where ys: "snd (loop_state rows cfg j) = snd (loop_state rows cfg i) @ ys" ..
    show ?thesis
    proof (cases "nat (ma_slow cfg) \<le> j")
      case True
      from step_ledger_grows [of rows "atr_multiplier cfg" j "loop_state rows cfg j"]
      obtain zs where "snd (loop_state rows cfg (Suc j)) = snd (loop_state rows cfg j) @ zs"
        by (auto simp: loop_state_Suc [OF True])
      with ys show ?thesis by simp
    next
      case False
      then have "loop_state rows cfg (Suc j) = (None, [])" "loop_state rows cfg i = (None, [])"
        using ij by (simp_all add: loop_state_start)
      then show ?thesis by simp
    qed
  qed
qed

lemma ledger_closed:
  "nat (ma_slow cfg) \<le> i \<Longrightarrow>
   snd (loop_state rows cfg i) = concat (map (closed_at rows cfg) [nat (ma_slow cfg)..<i])"
proof (induction i)
  case 0
  then show ?case by (simp add: loop_state_start)
next
  case (Suc i)
  show ?case
  proof (cases "nat (ma_slow cfg) \<le> i")
    case False
    with Suc.prems have "nat (ma_slow cfg) = Suc i" by simp
    then show ?thesis by (simp add: loop_state_start)
  next
    case True
    have "snd (step rows (atr_multiplier cfg) i (loop_state rows cfg i))
        = snd (loop_state rows cfg i) @ closed_at rows cfg i"
      by (cases "loop_state rows cfg i")
        (auto simp: step_def closed_at_def Let_def split: option.splits)
    with Suc.IH [OF True] True show ?thesis
      by (simp add: loop_state_Suc)
  qed
qed

text \<open>A property of every closed trade holds for every trade of the ledger.\<close>

lemma ledger_all:
  assumes "\<And>p row why price. P (close_position p row why price)"
  shows "\<forall>t \<in> set (snd (loop_state rows cfg i)). P t"
proof (induction i)
  case 0
  then show ?case by (simp add: loop_state_start)
next
  case (Suc i)
  show ?case
  proof (cases "nat (ma_slow cfg) \<le> i")
    case False
    then show ?thesis by (simp add: loop_state_start)
  next
    case True
    with Suc.IH assms show ?thesis
      by (cases "loop_state rows cfg i")
        (auto simp: loop_state_Suc step_def Let_def split: option.splits)
  qed
qed

subsection \<open>Evaluating the sample runs\<close>

lemmas eval_defs = work_rows_def roll_def window_mean_def window_at_def true_range_def
  col_close_def col_high_def col_low_def shift1_def max_skipna_def mk_row_def fl_sub_def fl_gt_def
  frame_of_def mk_bar_def Let_def

lemmas loop_defs = loop_state_def step_def entry_signal_def open_position_def check_exit_def
  close_position_def prev_index_def trade_a_def trade_b_def trade_d_def trade_e_def

lemma sample_prep: "add_indicators (heap_of bs) 0 cfg0 = (Inr 1, sample_heap bs)"
  by (simp add: add_indicators_ok heap_of_def sample_heap_def cfg0_def)

lemma sample_iloc: "iloc_rows (frames (sample_heap bs) 1) = Inr (sample_rows bs)"
  by (simp add: sample_heap_def sample_rows_def iloc_rows_work_frame)

lemma sample_run:
  "fst (run_backtest (heap_of bs) 0 cfg0) =
     Inr (snd (loop_state (sample_rows bs) cfg0 (length bs)))"
  using run_backtest_ok [of cfg0 "heap_of bs" 0]
  by (simp add: cfg0_def heap_of_def sample_rows_def frame_of_def)

lemma length_sample_rows [simp]: "length (sample_rows bs) = length bs"
  by (simp add: sample_rows_def frame_of_def)

subsection \<open>Entry\<close>





subsection \<open>Exit\<close>

text \<open>
  C2. At a bar \<open>i\<close> that the loop reaches holding a position \<open>p\<close>: if
  \<open>low[i] \<le> stop_loss\<close> the position is closed at exactly the stored stop level with reason
  StopLoss, whatever the trend does; otherwise, if \<open>uptrend[i-1]\<close> holds and \<open>uptrend[i]\<close> does
  not, it is closed at \<open>close[i]\<close> with reason TrendReversal; otherwise the state is unchanged.
  The trade appended at bar \<open>i\<close> is part of the returned ledger.
\<close>

theorem exit_priority:
  assumes prep: "add_indicators h0 df0 cfg = (Inr df, h)"
    and rows: "iloc_rows (frames h df) = Inr rows"
    and i: "i < length rows"
    and long: "fst (loop_state rows cfg i) = Some p"
  shows "(fl_le (r_low (rows ! i)) (stop_loss p) \<longrightarrow>
            loop_state rows cfg (Suc i) =
              (None, snd (loop_state rows cfg i) @
                 [\<lparr>entry_date = pos_entry_date p, entry_price = pos_entry_price p,
                   exit_date = r_date (rows ! i), exit_price = stop_loss p,
                   pnl_pct = fl_mul (fl_div (fl_sub (stop_loss p) (pos_entry_price p))
                                       (pos_entry_price p)) (Fin 100),
                   reason = StopLoss\<rparr>]))
      \<and> (\<not> fl_le (r_low (rows ! i)) (stop_loss p)
            \<and> r_uptrend (rows ! (i - 1)) \<and> \<not> r_uptrend (rows ! i) \<longrightarrow>
            loop_state rows cfg (Suc i) =
              (None, snd (loop_state rows cfg i) @
                 [\<lparr>entry_date = pos_entry_date p, entry_price = pos_entry_price p,
                   exit_date = r_date (rows ! i), exit_price = r_close (rows ! i),
                   pnl_pct = fl_mul (fl_div (fl_sub (r_close (rows ! i)) (pos_entry_price p))
                                       (pos_entry_price p)) (Fin 100),
                   reason = TrendReversal\<rparr>]))
      \<and> (\<not> fl_le (r_low (rows ! i)) (stop_loss p)
            \<and> \<not> (r_uptrend (rows ! (i - 1)) \<and> \<not> r_uptrend (rows ! i)) \<longrightarrow>
            loop_state rows cfg (Suc i) = loop_state rows cfg i)
      \<and> (\<exists>ledger. fst (run_backtest h0 df0 cfg) = Inr ledger
            \<and> take (length (snd (loop_state rows cfg (Suc i)))) ledger
                = snd (loop_state rows cfg (Suc i)))
      \<and> r_low (rows ! i) = Fin (bar_low (bars (frames h0 df0) ! i))
      \<and> r_close (rows ! i) = Fin (bar_close (bars (frames h0 df0) ! i))
      \<and> r_date (rows ! i) = bar_date (bars (frames h0 df0) ! i)"
proof -
  from prepared [OF prep rows]
  have rows_eq: "rows = work_rows (frames h0 df0) cfg" by simp
  from i rows_eq have ib: "i < length (bars (frames h0 df0))" by simp
  note rf = row_fields [OF ib, of cfg, folded rows_eq]
  from open_implies_later [OF long] have later: "nat (ma_slow cfg) < i" .
  then have prev: "prev_index (length rows) i = i - 1"
    by (simp add: prev_index_def)
  from later have "nat (ma_slow cfg) \<le> i" by simp
  note suc = loop_state_Suc [OF this, of rows]
  have st: "step rows (atr_multiplier cfg) i (loop_state rows cfg i) =
     (case check_exit p (rows ! i) (rows ! (i - 1)) of
        None \<Rightarrow> loop_state rows cfg i
      | Some (why, price) \<Rightarrow>
          (None, snd (loop_state rows cfg i) @ [close_position p (rows ! i) why price]))"
    using step_long [OF long, of rows "atr_multiplier cfg" i] prev by simp
  from i have "Suc i \<le> length rows" by simp
  from ledger_grows [OF this, of rows cfg] obtain ys where
    "snd (loop_state rows cfg (length rows)) = snd (loop_state rows cfg (Suc i)) @ ys" ..
  with run_backtest_result [OF prep rows]
  have led: "\<exists>ledger. fst (run_backtest h0 df0 cfg) = Inr ledger
            \<and> take (length (snd (loop_state rows cfg (Suc i)))) ledger
                = snd (loop_state rows cfg (Suc i))"
    by simp
  have stop: "fl_le (r_low (rows ! i)) (stop_loss p) \<longrightarrow>
            loop_state rows cfg (Suc i) =
              (None, snd (loop_state rows cfg i) @
                 [\<lparr>entry_date = pos_entry_date p, entry_price = pos_entry_price p,
                   exit_date = r_date (rows ! i), exit_price = stop_loss p,
                   pnl_pct = fl_mul (fl_div (fl_sub (stop_loss p) (pos_entry_price p))
                                       (pos_entry_price p)) (Fin 100),
                   reason = StopLoss\<rparr>])"
    by (simp add: suc st check_exit_def close_position_def Let_def)
  have rev: "\<not> fl_le (r_low (rows ! i)) (stop_loss p)
            \<and> r_uptrend (rows ! (i - 1)) \<and> \<not> r_uptrend (rows ! i) \<longrightarrow>
            loop_state rows cfg (Suc i) =
              (None, snd (loop_state rows cfg i) @
                 [\<lparr>entry_date = pos_entry_date p, entry_price = pos_entry_price p,
                   exit_date = r_date (rows ! i), exit_price = r_close (rows ! i),
                   pnl_pct = fl_mul (fl_div (fl_sub (r_close (rows ! i)) (pos_entry_price p))
                                       (pos_entry_price p)) (Fin 100),
                   reason = TrendReversal\<rparr>])"
    by (simp add: suc st check_exit_def close_position_def Let_def)
  have stay: "\<not> fl_le (r_low (rows ! i)) (stop_loss p)
            \<and> \<not> (r_uptrend (rows ! (i - 1)) \<and> \<not> r_uptrend (rows ! i)) \<longrightarrow>
            loop_state rows cfg (Suc i) = loop_state rows cfg i"
    by (auto simp add: suc st check_exit_def)
  from stop rev stay led rf show ?thesis by blast
qed

lemma loop_b3: "loop_state (sample_rows bars_b) cfg0 3 =
    (Some \<lparr>pos_entry_date = 3, pos_entry_price = Fin 100, stop_loss = Fin 88\<rparr>, [])"
  by (simp add: sample_rows_def eval_defs loop_defs bars_b_def cfg0_def eval_nat_numeral)

lemma row_b3: "r_low (sample_rows bars_b ! 3) = Fin 80 \<and> r_date (sample_rows bars_b ! 3) = 4
    \<and> r_uptrend (sample_rows bars_b ! 2) \<and> \<not> r_uptrend (sample_rows bars_b ! 3)"
  by (simp add: sample_rows_def eval_defs bars_b_def cfg0_def eval_nat_numeral)

text \<open>On \<open>bars_b\<close>, bar 3 has its low at 80, under the stop at 88, and the trend reverses on the
  same bar: the trade is closed at 88 as a stop-loss.\<close>

theorem exit_priority_witness:
  "fst (loop_state (sample_rows bars_b) cfg0 3) =
      Some \<lparr>pos_entry_date = 3, pos_entry_price = Fin 100, stop_loss = Fin 88\<rparr>
   \<and> fl_le (r_low (sample_rows bars_b ! 3)) (Fin 88)
   \<and> r_uptrend (sample_rows bars_b ! 2) \<and> \<not> r_uptrend (sample_rows bars_b ! 3)
   \<and> loop_state (sample_rows bars_b) cfg0 4 = (None, [trade_b])"
proof -
  have long: "fst (loop_state (sample_rows bars_b) cfg0 3) =
      Some \<lparr>pos_entry_date = 3, pos_entry_price = Fin 100, stop_loss = Fin 88\<rparr>"
    by (simp add: loop_b3)
  have i: "3 < length (sample_rows bars_b)" by (simp add: bars_b_def)
  from exit_priority [OF sample_prep sample_iloc i long] long row_b3 loop_b3
  show ?thesis by (simp add: fl_sub_def trade_b_def)
qed

subsection \<open>A position still open after the last bar\<close>

lemma open_since:
  "fst (loop_state rows cfg i) = Some p \<Longrightarrow>
   \<exists>e. nat (ma_slow cfg) \<le> e \<and> e < i \<and> opens_at rows cfg e
      \<and> p = open_position (atr_multiplier cfg) (rows ! e)
      \<and> (\<forall>j. e < j \<and> j \<le> i \<longrightarrow> loop_state rows cfg j = (Some p, snd (loop_state rows cfg e)))"
proof (induction i)
  case 0
  then show ?case by (simp add: loop_state_start)
next
  case (Suc i)
  from open_implies_later [OF Suc.prems] have ge: "nat (ma_slow cfg) \<le> i" by simp
  note suc = loop_state_Suc [OF ge, of rows]
  show ?case
  proof (cases "fst (loop_state rows cfg i)")
    case None
    with Suc.prems suc
    have sig: "entry_signal (rows ! i) (rows ! prev_index (length rows) i)"
      and p: "p = open_position (atr_multiplier cfg) (rows ! i)"
      by (auto simp: step_flat split: if_splits)
    from None sig p suc have st: "loop_state rows cfg (Suc i) = (Some p, snd (loop_state rows cfg i))"
      by (simp add: step_flat)
    with None have "opens_at rows cfg i" by (simp add: opens_at_def)
    moreover have "\<forall>j. i < j \<and> j \<le> Suc i \<longrightarrow> loop_state rows cfg j = (Some p, snd (loop_state rows cfg i))"
      using st by (auto simp: le_Suc_eq)
    ultimately show ?thesis using ge p by (intro exI [of _ i]) simp
  next
    case (Some q)
    with Suc.prems suc have same: "loop_state rows cfg (Suc i) = loop_state rows cfg i"
      by (auto simp: step_long split: option.splits)
    with Suc.prems have "fst (loop_state rows cfg i) = Some p" by simp
    from Suc.IH [OF this] obtain e where e: "nat (ma_slow cfg) \<le> e" "e < i" "opens_at rows cfg e"
      "p = open_position (atr_multiplier cfg) (rows ! e)"
      "\<forall>j. e < j \<and> j \<le> i \<longrightarrow> loop_state rows cfg j = (Some p, snd (loop_state rows cfg e))"
      by blast
    from e(2) e(5) have "loop_state rows cfg i = (Some p, snd (loop_state rows cfg e))" by simp
    with same e(5) have "\<forall>j. e < j \<and> j \<le> Suc i \<longrightarrow> loop_state rows cfg j = (Some p, snd (loop_state rows cfg e))"
      by (auto simp: le_Suc_eq)
    with e show ?thesis by (intro exI [of _ e]) simp
  qed
qed

text \<open>
  C3. When the loop ends holding a position \<open>p\<close>, that position was opened at some bar
  \<open>e\<close> and has stayed open, with the ledger untouched, ever since: the ledger returned is the
  ledger as it stood on reaching \<open>e\<close>, which is exactly the trades closed at the bars before
  \<open>e\<close>. So nothing is recorded for \<open>p\<close> and \<open>p\<close> is not force-closed.
\<close>

theorem open_at_end:
  assumes prep: "add_indicators h0 df0 cfg = (Inr df, h)"
    and rows: "iloc_rows (frames h df) = Inr rows"
    and long: "fst (loop_state rows cfg (length rows)) = Some p"
  shows "\<exists>e. nat (ma_slow cfg) \<le> e \<and> e < length rows \<and> opens_at rows cfg e
      \<and> p = open_position (atr_multiplier cfg) (rows ! e)
      \<and> (\<forall>j. e < j \<and> j \<le> length rows \<longrightarrow>
            loop_state rows cfg j = (Some p, snd (loop_state rows cfg e)))
      \<and> run_backtest h0 df0 cfg = (Inr (snd (loop_state rows cfg e)), h)
      \<and> snd (loop_state rows cfg e) =
          concat (map (closed_at rows cfg) [nat (ma_slow cfg)..<e])"
proof -
  from open_since [OF long] obtain e where e: "nat (ma_slow cfg) \<le> e" "e < length rows"
    "opens_at rows cfg e" "p = open_position (atr_multiplier cfg) (rows ! e)"
    "\<forall>j. e < j \<and> j \<le> length rows \<longrightarrow>
            loop_state rows cfg j = (Some p, snd (loop_state rows cfg e))"
    by blast
  from e(2) e(5) have "loop_state rows cfg (length rows) = (Some p, snd (loop_state rows cfg e))"
    by simp
  with run_backtest_result [OF prep rows]
  have "run_backtest h0 df0 cfg = (Inr (snd (loop_state rows cfg e)), h)" by simp
  with e ledger_closed [OF e(1), of rows] show ?thesis
    by (intro exI [of _ e]) simp
qed

lemma loop_c6: "loop_state (sample_rows bars_c) cfg0 6 =
    (Some \<lparr>pos_entry_date = 6, pos_entry_price = Fin 115, stop_loss = Fin 103\<rparr>, [trade_a])"
  by (simp add: sample_rows_def eval_defs loop_defs bars_c_def cfg0_def eval_nat_numeral)

text \<open>\<open>bars_c\<close> ends with the position opened at its last bar; the ledger holds the one
  earlier trade.\<close>

theorem open_at_end_witness:
  "fst (loop_state (sample_rows bars_c) cfg0 (length (sample_rows bars_c))) =
      Some \<lparr>pos_entry_date = 6, pos_entry_price = Fin 115, stop_loss = Fin 103\<rparr>
   \<and> fst (run_backtest (heap_of bars_c) 0 cfg0) = Inr [trade_a]
   \<and> (\<exists>e. nat (ma_slow cfg0) \<le> e \<and> e < length (sample_rows bars_c)
        \<and> opens_at (sample_rows bars_c) cfg0 e
        \<and> \<lparr>pos_entry_date = 6, pos_entry_price = Fin 115, stop_loss = Fin 103\<rparr>
            = open_position (atr_multiplier cfg0) (sample_rows bars_c ! e)
        \<and> (\<forall>j. e < j \<and> j \<le> length (sample_rows bars_c) \<longrightarrow>
              loop_state (sample_rows bars_c) cfg0 j =
                (Some \<lparr>pos_entry_date = 6, pos_entry_price = Fin 115, stop_loss = Fin 103\<rparr>,
                 snd (loop_state (sample_rows bars_c) cfg0 e)))
        \<and> run_backtest (heap_of bars_c) 0 cfg0 =
            (Inr (snd (loop_state (sample_rows bars_c) cfg0 e)), sample_heap bars_c)
        \<and> snd (loop_state (sample_rows bars_c) cfg0 e) =
            concat (map (closed_at (sample_rows bars_c) cfg0) [nat (ma_slow cfg0)..<e]))"
proof -
  have len: "length bars_c = 6" by (simp add: bars_c_def)
  have long: "fst (loop_state (sample_rows bars_c) cfg0 (length (sample_rows bars_c))) =
      Some \<lparr>pos_entry_date = 6, pos_entry_price = Fin 115, stop_loss = Fin 103\<rparr>"
    by (simp add: len loop_c6)
  have run: "fst (run_backtest (heap_of bars_c) 0 cfg0) = Inr [trade_a]"
    by (simp add: sample_run len loop_c6)
  from long run open_at_end [OF sample_prep sample_iloc long] show ?thesis
    by (intro conjI)
qed

subsection \<open>Short input\<close>

text \<open>
  C4. With fewer bars than \<open>ma_slow\<close> (no bars at all included) and windows that
  \<open>rolling\<close> accepts, \<open>run_backtest\<close> returns the empty ledger and raises nothing.
\<close>

theorem short_input:
  assumes "0 \<le> ma_fast cfg" and "0 \<le> atr_period cfg"
    and short: "int (length (bars (frames h0 df0))) < ma_slow cfg"
  shows "fst (run_backtest h0 df0 cfg) = Inr []"
proof -
  from short have "0 \<le> ma_slow cfg" by simp
  with assms(1,2) have "fst (run_backtest h0 df0 cfg) =
     Inr (snd (loop_state (work_rows (frames h0 df0) cfg) cfg (length (bars (frames h0 df0)))))"
    by (simp add: run_backtest_ok)
  moreover from short have "length (bars (frames h0 df0)) \<le> nat (ma_slow cfg)" by simp
  ultimately show ?thesis by (simp add: loop_state_start)
qed

theorem short_input_witness:
  "fst (run_backtest (heap_of []) 0 cfg0) = Inr []
   \<and> fst (run_backtest (heap_of bars_a) 0 (cfg0\<lparr>ma_slow := 6\<rparr>)) = Inr []"
  using short_input [of cfg0 "heap_of []" 0]
    short_input [of "cfg0\<lparr>ma_slow := 6\<rparr>" "heap_of bars_a" 0]
  by (simp add: cfg0_def heap_of_def frame_of_def bars_a_def)

subsection \<open>Profit and loss\<close>

lemma pnl_close_position:
  "pnl_pct (close_position p row why price) =
     fl_mul (fl_div (fl_sub (exit_price (close_position p row why price))
                       (entry_price (close_position p row why price)))
               (entry_price (close_position p row why price))) (Fin 100)"
  by (simp add: close_position_def Let_def)

text \<open>
  C5. Every trade of the returned ledger has
  \<open>pnl_pct = (exit_price - entry_price) / entry_price * 100\<close>; with entry at 100, an exit at 110
  gives 10 and an exit at 90 gives -10.
\<close>

theorem pnl_formula:
  assumes run: "fst (run_backtest h0 df0 cfg) = Inr ledger" and t: "t \<in> set ledger"
  shows "pnl_pct t = fl_mul (fl_div (fl_sub (exit_price t) (entry_price t)) (entry_price t)) (Fin 100)
      \<and> (entry_price t = Fin 100 \<and> exit_price t = Fin 110 \<longrightarrow> pnl_pct t = Fin 10)
      \<and> (entry_price t = Fin 100 \<and> exit_price t = Fin 90 \<longrightarrow> pnl_pct t = Fin (- 10))"
proof -
  from run_backtest_Inr [OF run] have
    "ledger = snd (loop_state (work_rows (frames h0 df0) cfg) cfg (length (bars (frames h0 df0))))"
    by simp
  with t ledger_all [of "\<lambda>t. pnl_pct t =
      fl_mul (fl_div (fl_sub (exit_price t) (entry_price t)) (entry_price t)) (Fin 100)",
      OF pnl_close_position]
  have f: "pnl_pct t = fl_mul (fl_div (fl_sub (exit_price t) (entry_price t)) (entry_price t)) (Fin 100)"
    by blast
  then show ?thesis by (simp add: fl_sub_def)
qed

lemma run_a: "fst (run_backtest (heap_of bars_a) 0 cfg0) = Inr [trade_a]"
proof -
  have "length bars_a = 5" by (simp add: bars_a_def)
  moreover have "loop_state (sample_rows bars_a) cfg0 5 = (None, [trade_a])"
    by (simp add: sample_rows_def eval_defs loop_defs bars_a_def cfg0_def eval_nat_numeral)
  ultimately show ?thesis by (simp add: sample_run)
qed

lemma run_d: "fst (run_backtest (heap_of bars_d) 0 cfg0) = Inr [trade_d]"
proof -
  have "length bars_d = 4" by (simp add: bars_d_def)
  moreover have "loop_state (sample_rows bars_d) cfg0 4 = (None, [trade_d])"
    by (simp add: sample_rows_def eval_defs loop_defs bars_d_def cfg0_def eval_nat_numeral)
  ultimately show ?thesis by (simp add: sample_run)
qed

text \<open>\<open>bars_a\<close> yields a trade from 100 to 110, \<open>bars_d\<close> one from 100 to 90.\<close>

theorem pnl_formula_witness:
  "fst (run_backtest (heap_of bars_a) 0 cfg0) = Inr [trade_a]
   \<and> entry_price trade_a = Fin 100 \<and> exit_price trade_a = Fin 110 \<and> pnl_pct trade_a = Fin 10
   \<and> fst (run_backtest (heap_of bars_d) 0 cfg0) = Inr [trade_d]
   \<and> entry_price trade_d = Fin 100 \<and> exit_price trade_d = Fin 90
   \<and> pnl_pct trade_d = Fin (- 10)"
proof -
  have a: "entry_price trade_a = Fin 100" "exit_price trade_a = Fin 110"
    by (simp_all add: trade_a_def)
  have d: "entry_price trade_d = Fin 100" "exit_price trade_d = Fin 90"
    by (simp_all add: trade_d_def)
  have in_a: "trade_a \<in> set [trade_a]" and in_d: "trade_d \<in> set [trade_d]" by simp_all
  from pnl_formula [OF run_a in_a] a have "pnl_pct trade_a = Fin 10" by blast
  moreover from pnl_formula [OF run_d in_d] d have "pnl_pct trade_d = Fin (- 10)" by blast
  ultimately show ?thesis using run_a run_d a d by (intro conjI)
qed

subsection \<open>True range and ATR at the first bar\<close>

lemma true_range_Cons:
  "bars f = b # bs \<Longrightarrow> true_range f ! 0 = Fin (bar_high b - bar_low b)"
  by (simp add: true_range_def col_high_def col_low_def col_close_def shift1_def
      max_skipna_def fl_sub_def Let_def)

lemma true_range_single:
  "bars f = [b] \<Longrightarrow> true_range f = [Fin (bar_high b - bar_low b)]"
  by (simp add: true_range_def col_high_def col_low_def col_close_def shift1_def
      max_skipna_def fl_sub_def Let_def)

text \<open>
  C6. (as amended) The true range at the first bar is \<open>high[0] - low[0]\<close>. For a
  series of one bar, \<open>atr[0]\<close> is \<open>high[0] - low[0]\<close> when the period is 1, and NaN (not
  available) for every period from 2 on.
\<close>

theorem atr_first_bar:
  "(bars f \<noteq> [] \<longrightarrow> true_range f ! 0 = Fin (bar_high (bars f ! 0) - bar_low (bars f ! 0)))
   \<and> (bars f = [b] \<longrightarrow>
        calc_atr f 1 = Inr [Fin (bar_high b - bar_low b)]
        \<and> (\<forall>period. 2 \<le> period \<longrightarrow> calc_atr f period = Inr [NaN]))"
proof -
  have "true_range f ! 0 = Fin (bar_high (bars f ! 0) - bar_low (bars f ! 0))" if "bars f \<noteq> []"
  proof -
    from that obtain b' bs where "bars f = b' # bs" by (cases "bars f") auto
    from true_range_Cons [OF this] this show ?thesis by simp
  qed
  moreover have "calc_atr f 1 = Inr [Fin (bar_high b - bar_low b)]" if "bars f = [b]"
    using true_range_single [OF that]
    by (simp add: calc_atr_def rolling_mean_def window_mean_def window_at_def)
  moreover have "calc_atr f period = Inr [NaN]" if "bars f = [b]" and "2 \<le> period" for period
  proof -
    from that(2) have "\<not> nat period \<le> Suc 0" by simp
    with true_range_single [OF that(1)] that(2) show ?thesis
      by (simp add: calc_atr_def rolling_mean_def window_mean_def window_at_def)
  qed
  ultimately show ?thesis by blast
qed

theorem atr_first_bar_witness:
  "true_range (frame_of [mk_bar 1 90]) ! 0 = Fin 2
   \<and> calc_atr (frame_of [mk_bar 1 90]) 1 = Inr [Fin 2]
   \<and> calc_atr (frame_of [mk_bar 1 90]) 2 = Inr [NaN]"
proof -
  have b: "bars (frame_of [mk_bar 1 90]) = [mk_bar 1 90]" by (simp add: frame_of_def)
  from atr_first_bar [of "frame_of [mk_bar 1 90]" "mk_bar 1 90"] b
  have "true_range (frame_of [mk_bar 1 90]) ! 0 = Fin (bar_high (mk_bar 1 90) - bar_low (mk_bar 1 90))"
    and "calc_atr (frame_of [mk_bar 1 90]) 1 = Inr [Fin (bar_high (mk_bar 1 90) - bar_low (mk_bar 1 90))]"
    and "calc_atr (frame_of [mk_bar 1 90]) 2 = Inr [NaN]"
    by simp_all
  then show ?thesis by (simp add: mk_bar_def)
qed

text \<open>C6 as stated fails: with the default period 14, one bar gives \<open>atr[0] = NaN\<close>, not
  \<open>high[0] - low[0]\<close>.\<close>

theorem atr_single_bar_counterexample:
  "calc_atr (frame_of [mk_bar 1 90]) 14 = Inr [NaN]
   \<and> calc_atr (frame_of [mk_bar 1 90]) 14
       \<noteq> Inr [Fin (bar_high (mk_bar 1 90) - bar_low (mk_bar 1 90))]"
  by (simp add: calc_atr_def rolling_mean_def eval_defs)

subsection \<open>Window parameters\<close>

text \<open>
  C7. (as amended) A negative \<open>ma_fast\<close>, \<open>ma_slow\<close> or \<open>atr_period\<close> makes the call
  fail with ValueError while the indicator columns are computed, before the loop; when none of
  the three is negative (zero included) the call returns a ledger.
\<close>

theorem negative_window_rejected:
  "(ma_fast cfg < 0 \<or> ma_slow cfg < 0 \<or> atr_period cfg < 0 \<longrightarrow>
      fst (add_indicators h0 df0 cfg) = Inl ValueError
      \<and> fst (run_backtest h0 df0 cfg) = Inl ValueError)
   \<and> (0 \<le> ma_fast cfg \<and> 0 \<le> ma_slow cfg \<and> 0 \<le> atr_period cfg \<longrightarrow>
      (\<exists>ledger. fst (run_backtest h0 df0 cfg) = Inr ledger))"
  using add_indicators_neg [of cfg h0 df0] run_backtest_neg [of cfg h0 df0]
    run_backtest_ok [of cfg h0 df0]
  by blast

theorem negative_window_rejected_witness:
  "fst (run_backtest (heap_of bars_a) 0 (cfg0\<lparr>atr_period := - 1\<rparr>)) = Inl ValueError
   \<and> fst (add_indicators (heap_of bars_a) 0 (cfg0\<lparr>atr_period := - 1\<rparr>)) = Inl ValueError
   \<and> (\<exists>ledger. fst (run_backtest (heap_of bars_a) 0 cfg0) = Inr ledger)"
  using negative_window_rejected [of "cfg0\<lparr>atr_period := - 1\<rparr>" "heap_of bars_a" 0]
    negative_window_rejected [of cfg0 "heap_of bars_a" 0]
  by (simp add: cfg0_def)

text \<open>C7 as stated fails: \<open>ma_fast = 0\<close> is not rejected; the call returns an empty ledger.\<close>

theorem zero_window_counterexample:
  "ma_fast (cfg0\<lparr>ma_fast := 0\<rparr>) \<le> 0
   \<and> fst (run_backtest (heap_of bars_a) 0 (cfg0\<lparr>ma_fast := 0\<rparr>)) = Inr []"
proof -
  have "fst (run_backtest (heap_of bars_a) 0 (cfg0\<lparr>ma_fast := 0\<rparr>)) =
      Inr (snd (loop_state (work_rows (frame_of bars_a) (cfg0\<lparr>ma_fast := 0\<rparr>))
        (cfg0\<lparr>ma_fast := 0\<rparr>) (length bars_a)))"
    using run_backtest_ok [of "cfg0\<lparr>ma_fast := 0\<rparr>" "heap_of bars_a" 0]
    by (simp add: cfg0_def heap_of_def frame_of_def)
  moreover have "loop_state (work_rows (frame_of bars_a) (cfg0\<lparr>ma_fast := 0\<rparr>))
        (cfg0\<lparr>ma_fast := 0\<rparr>) (length bars_a) = (None, [])"
    by (simp add: eval_defs loop_defs bars_a_def cfg0_def eval_nat_numeral)
  ultimately show ?thesis by (simp add: cfg0_def)
qed

subsection \<open>Defaults\<close>

text \<open>
  C8. A call of \<open>run_backtest\<close> in strategy/strat_temp.py that sets no parameter runs
  with \<open>ma_fast = 5\<close>, \<open>ma_slow = 20\<close>, \<open>atr_period = 14\<close>, \<open>atr_multiplier = 2\<close>; the windows 20
  and 60 of the module's docstring are the defaults of backtest/vbt.py only.
\<close>

theorem default_windows:
  "bind_defaults \<lparr>arg_ma_fast = None, arg_ma_slow = None, arg_atr_period = None,
       arg_atr_multiplier = None\<rparr>
     = \<lparr>ma_fast = 5, ma_slow = 20, atr_period = 14, atr_multiplier = 2\<rparr>
   \<and> vbt_bind_defaults \<lparr>arg_ma_fast = None, arg_ma_slow = None, arg_atr_period = None,
       arg_atr_multiplier = None\<rparr>
     = \<lparr>ma_fast = 20, ma_slow = 60, atr_period = 14, atr_multiplier = 2\<rparr>"
  by (simp add: bind_defaults_def vbt_bind_defaults_def)

subsection \<open>Trades do not overlap\<close>

lemma span_of_mono: "span_of rows cfg i t s \<Longrightarrow> span_of rows cfg (Suc i) t s"
  by (simp add: span_of_def)

lemma list_all2_right: "list_all2 P xs ys \<Longrightarrow> y \<in> set ys \<Longrightarrow> \<exists>x. P x y"
  by (auto simp: in_set_conv_nth list_all2_conv_all_nth)

lemma spans_invariant:
  "\<exists>spans. list_all2 (span_of rows cfg i) (snd (loop_state rows cfg i)) spans
     \<and> sorted_wrt (\<lambda>s s'. snd s < fst s') spans
     \<and> (\<forall>p. fst (loop_state rows cfg i) = Some p \<longrightarrow>
          (\<exists>e. nat (ma_slow cfg) \<le> e \<and> e < i \<and> opens_at rows cfg e
             \<and> pos_entry_date p = r_date (rows ! e) \<and> (\<forall>s \<in> set spans. snd s < e)))"
proof (induction i)
  case 0
  then show ?case by (simp add: loop_state_start)
next
  case (Suc i)
  let ?lo = "nat (ma_slow cfg)"
  show ?case
  proof (cases "?lo \<le> i")
    case False
    then show ?thesis by (simp add: loop_state_start)
  next
    case True
    note suc = loop_state_Suc [OF True, of rows]
    from Suc.IH obtain spans where
      A: "list_all2 (span_of rows cfg i) (snd (loop_state rows cfg i)) spans"
      and B: "sorted_wrt (\<lambda>s s'. snd s < fst s') spans"
      and C: "\<forall>p. fst (loop_state rows cfg i) = Some p \<longrightarrow>
          (\<exists>e. ?lo \<le> e \<and> e < i \<and> opens_at rows cfg e
             \<and> pos_entry_date p = r_date (rows ! e) \<and> (\<forall>s \<in> set spans. snd s < e))"
      by blast
    from A have A': "list_all2 (span_of rows cfg (Suc i)) (snd (loop_state rows cfg i)) spans"
      by (rule list_all2_mono) (rule span_of_mono)
    have before: "\<forall>s \<in> set spans. snd s < i"
      using list_all2_right [OF A] by (auto simp: span_of_def)
    show ?thesis
    proof (cases "fst (loop_state rows cfg i)")
      case None
      show ?thesis
      proof (cases "entry_signal (rows ! i) (rows ! prev_index (length rows) i)")
        case False
        with None suc have "loop_state rows cfg (Suc i) = loop_state rows cfg i"
          by (simp add: step_flat)
        with None A' B show ?thesis by auto
      next
        case True
        with None suc have st: "loop_state rows cfg (Suc i) =
            (Some (open_position (atr_multiplier cfg) (rows ! i)), snd (loop_state rows cfg i))"
          by (simp add: step_flat)
        with None have "opens_at rows cfg i" by (simp add: opens_at_def)
        then have "\<exists>e. ?lo \<le> e \<and> e < Suc i \<and> opens_at rows cfg e
            \<and> pos_entry_date (open_position (atr_multiplier cfg) (rows ! i)) = r_date (rows ! e)
            \<and> (\<forall>s \<in> set spans. snd s < e)"
          using \<open>?lo \<le> i\<close> before by (intro exI [of _ i]) (simp add: open_position_def)
        with st A' B show ?thesis by auto
      qed
    next
      case (Some p)
      with C obtain e where e: "?lo \<le> e" "e < i" "opens_at rows cfg e"
        "pos_entry_date p = r_date (rows ! e)" "\<forall>s \<in> set spans. snd s < e"
        by blast
      show ?thesis
      proof (cases "check_exit p (rows ! i) (rows ! prev_index (length rows) i)")
        case None
        with Some suc have same: "loop_state rows cfg (Suc i) = loop_state rows cfg i"
          by (simp add: step_long)
        have "\<exists>e. ?lo \<le> e \<and> e < Suc i \<and> opens_at rows cfg e
            \<and> pos_entry_date p = r_date (rows ! e) \<and> (\<forall>s \<in> set spans. snd s < e)"
          using e by (intro exI [of _ e]) simp
        with same Some A' B show ?thesis by auto
      next
        case (Some a)
        obtain why price where a: "a = (why, price)" by (cases a)
        with Some \<open>fst (loop_state rows cfg i) = Some p\<close> suc
        have st: "loop_state rows cfg (Suc i) =
            (None, snd (loop_state rows cfg i) @ [close_position p (rows ! i) why price])"
          by (simp add: step_long)
        from a Some \<open>fst (loop_state rows cfg i) = Some p\<close>
        have cl: "closed_at rows cfg i = [close_position p (rows ! i) why price]"
          by (simp add: closed_at_def)
        have new: "span_of rows cfg (Suc i) (close_position p (rows ! i) why price) (e, i)"
          using e cl by (simp add: span_of_def close_position_def Let_def)
        have "list_all2 (span_of rows cfg (Suc i))
            (snd (loop_state rows cfg i) @ [close_position p (rows ! i) why price])
            (spans @ [(e, i)])"
          using A' new by (intro list_all2_appendI) simp_all
        moreover have "sorted_wrt (\<lambda>s s'. snd s < fst s') (spans @ [(e, i)])"
          using B e(5) by (simp add: sorted_wrt_append)
        ultimately show ?thesis using st by (intro exI [of _ "spans @ [(e, i)]"]) simp
      qed
    qed
  qed
qed

text \<open>
  C9. The trades of the returned ledger can be assigned pairs of bars \<open>(e, x)\<close> of the caller's
  frame with \<open>ma_slow \<le> e < x\<close>: the trade is the one closed at bar \<open>x\<close>, of the position opened at
  bar \<open>e\<close>, and carries the dates of these bars; and each trade's exit bar lies strictly before
  the next trade's entry bar.
\<close>

theorem trades_do_not_overlap:
  assumes run: "fst (run_backtest h0 df0 cfg) = Inr ledger"
  shows "\<exists>spans.
      list_all2 (\<lambda>t (e, x). ma_slow cfg \<le> int e \<and> e < x \<and> x < length (bars (frames h0 df0))
          \<and> opens_at (work_rows (frames h0 df0) cfg) cfg e
          \<and> closed_at (work_rows (frames h0 df0) cfg) cfg x = [t]
          \<and> entry_date t = bar_date (bars (frames h0 df0) ! e)
          \<and> exit_date t = bar_date (bars (frames h0 df0) ! x)) ledger spans
      \<and> sorted_wrt (\<lambda>s s'. snd s < fst s') spans"
proof -
  let ?f = "frames h0 df0"
  let ?n = "length (bars ?f)"
  let ?rows = "work_rows ?f cfg"
  from run_backtest_Inr [OF run] have nonneg: "0 \<le> ma_slow cfg"
    and ledger: "ledger = snd (loop_state ?rows cfg ?n)"
    by simp_all
  from spans_invariant [of ?rows cfg ?n] ledger obtain spans where
    A: "list_all2 (span_of ?rows cfg ?n) ledger spans"
    and B: "sorted_wrt (\<lambda>s s'. snd s < fst s') spans"
    by blast
  have "span_of ?rows cfg ?n t s \<Longrightarrow>
      (case s of (e, x) \<Rightarrow> ma_slow cfg \<le> int e \<and> e < x \<and> x < ?n
          \<and> opens_at ?rows cfg e \<and> closed_at ?rows cfg x = [t]
          \<and> entry_date t = bar_date (bars ?f ! e) \<and> exit_date t = bar_date (bars ?f ! x))" for t s
    using nonneg by (cases s) (auto simp: span_of_def row_fields)
  with A have "list_all2 (\<lambda>t (e, x). ma_slow cfg \<le> int e \<and> e < x \<and> x < ?n
          \<and> opens_at ?rows cfg e \<and> closed_at ?rows cfg x = [t]
          \<and> entry_date t = bar_date (bars ?f ! e) \<and> exit_date t = bar_date (bars ?f ! x)) ledger spans"
    by (rule list_all2_mono)
  with B show ?thesis by blast
qed

lemma run_e: "fst (run_backtest (heap_of bars_e) 0 cfg0) = Inr [trade_a, trade_e]"
proof -
  have "length bars_e = 7" by (simp add: bars_e_def)
  moreover have "loop_state (sample_rows bars_e) cfg0 7 = (None, [trade_a, trade_e])"
    by (simp add: sample_rows_def eval_defs loop_defs bars_e_def cfg0_def eval_nat_numeral)
  ultimately show ?thesis by (simp add: sample_run)
qed

text \<open>\<open>bars_e\<close> yields two trades, bars 2 to 4 and bars 5 to 6.\<close>

theorem trades_do_not_overlap_witness:
  "fst (run_backtest (heap_of bars_e) 0 cfg0) = Inr [trade_a, trade_e]
   \<and> (\<exists>spans.
      list_all2 (\<lambda>t (e, x). ma_slow cfg0 \<le> int e \<and> e < x
          \<and> x < length (bars (frames (heap_of bars_e) 0))
          \<and> opens_at (work_rows (frames (heap_of bars_e) 0) cfg0) cfg0 e
          \<and> closed_at (work_rows (frames (heap_of bars_e) 0) cfg0) cfg0 x = [t]
          \<and> entry_date t = bar_date (bars (frames (heap_of bars_e) 0) ! e)
          \<and> exit_date t = bar_date (bars (frames (heap_of bars_e) 0) ! x))
        [trade_a, trade_e] spans
      \<and> sorted_wrt (\<lambda>s s'. snd s < fst s') spans)"
  using run_e trades_do_not_overlap [OF run_e] by (intro conjI)

subsection \<open>The caller's frame\<close>

lemma add_indicators_frames:
  "r < next_ref h0 \<Longrightarrow> frames (snd (add_indicators h0 df0 cfg)) r = frames h0 r"
  by (auto simp: add_indicators_def df_copy_def set_ma_fast_def set_ma_slow_def set_atr_def
      set_uptrend_def Let_def split: sum.splits)

lemma run_backtest_heap: "snd (run_backtest h0 df0 cfg) = snd (add_indicators h0 df0 cfg)"
  by (auto simp: run_backtest_def split: prod.splits sum.splits)

text \<open>
  C10. \<open>run_backtest\<close> leaves the caller's frame, and every other frame allocated before
  the call, as it was, whether it returns a ledger or raises: all its writes go to the copy.
\<close>

theorem input_not_mutated:
  assumes "df0 < next_ref h0"
  shows "frames (snd (run_backtest h0 df0 cfg)) df0 = frames h0 df0
      \<and> (\<forall>r. r < next_ref h0 \<longrightarrow> frames (snd (run_backtest h0 df0 cfg)) r = frames h0 r)"
  using assms by (simp add: run_backtest_heap add_indicators_frames)

text \<open>After the sample run, reference 0 still denotes the input frame, and the new reference 1
  the working copy with its indicator columns.\<close>

theorem input_not_mutated_witness:
  "0 < next_ref (heap_of bars_a)
   \<and> frames (snd (run_backtest (heap_of bars_a) 0 cfg0)) 0 = frame_of bars_a
   \<and> frames (snd (run_backtest (heap_of bars_a) 0 cfg0)) 1 = work_frame (frame_of bars_a) cfg0"
proof -
  have alloc: "0 < next_ref (heap_of bars_a)" by (simp add: heap_of_def)
  from input_not_mutated [OF alloc, of cfg0]
  have "frames (snd (run_backtest (heap_of bars_a) 0 cfg0)) 0 = frame_of bars_a"
    by (simp add: heap_of_def)
  moreover have "frames (snd (run_backtest (heap_of bars_a) 0 cfg0)) 1
      = work_frame (frame_of bars_a) cfg0"
    by (simp add: run_backtest_heap sample_prep sample_heap_def)
  ultimately show ?thesis using alloc by (intro conjI)
qed

end
